theory Spec2Isabelle
  imports Complex_Main "HOL-Library.AList"
begin

section \<open>Data model of \<^verbatim>\<open>openlogprobs/models.py\<close>\<close>

text \<open>
  The module wraps a remote completion API. Everything outside the module (the tokenizer,
  the API client, the process environment) is a parameter of the model; everything the
  module itself does (building requests, indexing into responses, re-encoding, retrying,
  sleeping, aggregating) is a definition below.

  A Python \<^verbatim>\<open>dict\<close> is an association list with distinct keys in insertion order; storing
  under a key that is already present overwrites the value in place, which is what
  \<^const>\<open>AList.update\<close> does. Token ids are natural numbers, log-probabilities and biases
  are reals (the rounding of binary floating point is not modelled).
\<close>

type_synonym ('k, 'v) dict = "('k \<times> 'v) list"

type_synonym token_id = nat

type_synonym logit_bias = "(string, real) dict"

type_synonym logprob_map = "(token_id, real) dict"

text \<open>
  Failures of the API client that are not Python built-in exceptions (they come from the
  \<^verbatim>\<open>openai\<close> package and are never caught in the module).
\<close>

datatype api_failure =
    APIConnectionError
  | AuthenticationError
  | BadRequestError
  | OtherAPIError string

text \<open>Every exception that the module raises, or lets through.\<close>

datatype error =
    IndexError
  | KeyErrorStr string
  | KeyErrorTok token_id
  | AttributeError
  | TypeError
  | NotImplementedError string
  | BackendError api_failure
  | NanResult

text \<open>
  \<^const>\<open>NanResult\<close> is no exception: it stands for the value \<^verbatim>\<open>nan\<close> that
  \<^verbatim>\<open>np.median\<close> gives for an empty list, which is not a real number. The module never calls
  \<^verbatim>\<open>np.median\<close> on an empty list (lemma \<open>median_of_word_not_nan\<close> below).
\<close>

subsection \<open>Requests\<close>

text \<open>
  The keyword arguments of \<^verbatim>\<open>client.completions.create\<close> and of
  \<^verbatim>\<open>client.chat.completions.create\<close>. A keyword the call does not pass is \<open>None\<close>.
\<close>

record completion_request =
  cr_model :: string
  cr_prompt :: string
  cr_temperature :: nat
  cr_max_tokens :: nat
  cr_logit_bias :: "logit_bias option"
  cr_n :: "nat option"
  cr_logprobs :: "nat option"

record chat_message =
  msg_role :: string
  msg_content :: string

record chat_request =
  ch_model :: string
  ch_messages :: "chat_message list"
  ch_temperature :: nat
  ch_max_tokens :: nat
  ch_logit_bias :: "logit_bias option"
  ch_n :: "nat option"
  ch_logprobs :: "bool option"
  ch_top_logprobs :: "nat option"

subsection \<open>Responses\<close>

text \<open>
  Shape A (legacy completion): \<^verbatim>\<open>response.choices[0].logprobs.top_logprobs[0]\<close> is a dict
  from text to log-probability.
\<close>

record completion_logprobs =
  cl_top_logprobs :: "(string, real) dict list"

record completion_choice =
  cc_text :: string
  cc_logprobs :: "completion_logprobs option"

record completion =
  cmpl_choices :: "completion_choice list"

text \<open>
  Shape B (chat): \<^verbatim>\<open>response.choices[0].logprobs.content[0].top_logprobs\<close> is a list of
  objects with a \<^verbatim>\<open>token\<close> and a \<^verbatim>\<open>logprob\<close> attribute; \<^verbatim>\<open>choice.message\<close> is indexed
  with \<^verbatim>\<open>["content"]\<close>.
\<close>

record top_logprob =
  tlp_token :: string
  tlp_logprob :: real

record token_logprob =
  tk_top_logprobs :: "top_logprob list"

record chat_choice_logprobs =
  ccl_content :: "token_logprob list"

record chat_choice =
  chc_message :: "(string, string) dict"
  chc_logprobs :: "chat_choice_logprobs option"

record chat_completion =
  chat_choices :: "chat_choice list"

subsection \<open>The world: what the module does to the outside\<close>

text \<open>
  The trace lists, oldest first, every request sent to the backend and every
  \<^verbatim>\<open>time.sleep\<close>. (The \<^verbatim>\<open>print\<close> before each sleep is not recorded.)
\<close>

datatype event =
    CompletionsCreate completion_request
  | ChatCompletionsCreate chat_request
  | Sleep nat

type_synonym world = "event list"

subsection \<open>The collaborators\<close>

text \<open>
  The API client. The backend is not deterministic: its answer may depend on everything
  that happened before (the first argument: the requests made and the time slept so far)
  as well as on the request.
\<close>

record openai_client =
  api_key :: string
  completions_backend :: "world \<Rightarrow> completion_request \<Rightarrow> error + completion"
  chat_backend :: "world \<Rightarrow> chat_request \<Rightarrow> error + chat_completion"

definition completions_create ::
  "openai_client \<Rightarrow> completion_request \<Rightarrow> world \<Rightarrow> (error + completion) \<times> world" where
  "completions_create c req w =
     (completions_backend c w req, w @ [CompletionsCreate req])"

definition chat_completions_create ::
  "openai_client \<Rightarrow> chat_request \<Rightarrow> world \<Rightarrow> (error + chat_completion) \<times> world" where
  "chat_completions_create c req w =
     (chat_backend c w req, w @ [ChatCompletionsCreate req])"

definition sleep :: "nat \<Rightarrow> world \<Rightarrow> world" where
  "sleep secs w = w @ [Sleep secs]"

text \<open>
  The tokenizer (\<^verbatim>\<open>tiktoken.Encoding\<close>): \<^verbatim>\<open>encode(text)\<close>,
  \<^verbatim>\<open>encode(text, allowed_special=...)\<close> and \<^verbatim>\<open>n_vocab\<close>; and
  \<^verbatim>\<open>tiktoken.encoding_for_model\<close>, which raises for a model it does not know.
\<close>

record codec =
  encode :: "string \<Rightarrow> token_id list"
  encode_allowed :: "string set \<Rightarrow> string \<Rightarrow> token_id list"
  n_vocab :: int

type_synonym tiktoken = "string \<Rightarrow> error + codec"

subsection \<open>Python primitives used by the module\<close>

text \<open>\<^verbatim>\<open>xs[0]\<close> raises IndexError on an empty list.\<close>

definition getitem0 :: "'a list \<Rightarrow> error + 'a" where
  "getitem0 xs = (case xs of [] \<Rightarrow> Inl IndexError | x # _ \<Rightarrow> Inr x)"

text \<open>\<^verbatim>\<open>s.startswith(p)\<close>.\<close>

definition startswith :: "string \<Rightarrow> string \<Rightarrow> bool" where
  "startswith s p \<longleftrightarrow> take (length p) s = p"

text \<open>
  A parameter with a default value: the caller either leaves the argument out or passes
  a value (which, for \<^verbatim>\<open>logit_bias\<close>, may be \<^verbatim>\<open>None\<close>).
\<close>

datatype 'a arg = Omitted | Passed 'a

definition arg_or_default :: "'a \<Rightarrow> 'a arg \<Rightarrow> 'a" where
  "arg_or_default d a = (case a of Omitted \<Rightarrow> d | Passed x \<Rightarrow> x)"

section \<open>\<^verbatim>\<open>class OpenAIModel\<close>\<close>

record OpenAIModel =
  model :: string
  encoding :: codec
  client :: openai_client
  system :: string
  max_api_retries :: int

text \<open>
  \<^verbatim>\<open>__init__(self, model, system=None)\<close>. \<^verbatim>\<open>system or "You are a helpful assistant."\<close>
  takes the default for \<^verbatim>\<open>None\<close> and for the empty string.
\<close>

definition OpenAIModel_init ::
  "tiktoken \<Rightarrow> (string \<rightharpoonup> string) \<Rightarrow> (string \<Rightarrow> openai_client) \<Rightarrow>
   string \<Rightarrow> string option \<Rightarrow> error + OpenAIModel" where
  "OpenAIModel_init encoding_for_model environ OpenAI mdl sys =
     (case encoding_for_model mdl of
        Inl e \<Rightarrow> Inl e
      | Inr enc \<Rightarrow>
          (case environ ''OPENAI_API_KEY'' of
             None \<Rightarrow> Inl (KeyErrorStr ''OPENAI_API_KEY'')
           | Some key \<Rightarrow>
               Inr \<lparr> model = mdl,
                     encoding = enc,
                     client = OpenAI key,
                     system = (case sys of
                                 None \<Rightarrow> ''You are a helpful assistant.''
                               | Some s \<Rightarrow> if s = [] then ''You are a helpful assistant.'' else s),
                     max_api_retries = 5 \<rparr>))"

definition vocab_size :: "OpenAIModel \<Rightarrow> int" where
  "vocab_size self = n_vocab (encoding self)"

subsection \<open>The response normalizer\<close>

text \<open>
  The dict comprehension \<^verbatim>\<open>{self.encoding.encode(x)[0]: y for x, y in items}\<close>: the entries
  are visited in order, \<^verbatim>\<open>[0]\<close> raises IndexError when a text encodes to no token, and a
  key that comes again overwrites the earlier value.
\<close>

fun first_token_dict ::
  "codec \<Rightarrow> (string \<times> real) list \<Rightarrow> logprob_map \<Rightarrow> error + logprob_map" where
  "first_token_dict enc [] acc = Inr acc"
| "first_token_dict enc ((x, y) # rest) acc =
     (case getitem0 (encode enc x) of
        Inl e \<Rightarrow> Inl e
      | Inr t \<Rightarrow> first_token_dict enc rest (AList.update t y acc))"

text \<open>The keyword arguments of the two requests of \<^verbatim>\<open>_instruct_logprobs\<close>.\<close>

definition instruct_request :: "OpenAIModel \<Rightarrow> string \<Rightarrow> logit_bias option \<Rightarrow> completion_request" where
  "instruct_request self prefix logit_bias =
     (case logit_bias of
        Some lb \<Rightarrow>
          \<lparr> cr_model = model self, cr_prompt = prefix, cr_temperature = 1, cr_max_tokens = 1,
            cr_logit_bias = Some lb, cr_n = None, cr_logprobs = Some 5 \<rparr>
      | None \<Rightarrow>
          \<lparr> cr_model = model self, cr_prompt = prefix, cr_temperature = 1, cr_max_tokens = 1,
            cr_logit_bias = None, cr_n = None, cr_logprobs = Some 5 \<rparr>)"

text \<open>
  \<^verbatim>\<open>response.choices[0].logprobs.top_logprobs[0]\<close>, then the comprehension. An attribute
  read on \<^verbatim>\<open>None\<close> raises AttributeError.
\<close>

definition instruct_normalize :: "OpenAIModel \<Rightarrow> completion \<Rightarrow> error + logprob_map" where
  "instruct_normalize self response =
     (case getitem0 (cmpl_choices response) of
        Inl e \<Rightarrow> Inl e
      | Inr choice \<Rightarrow>
          (case cc_logprobs choice of
             None \<Rightarrow> Inl AttributeError
           | Some lps \<Rightarrow>
               (case getitem0 (cl_top_logprobs lps) of
                  Inl e \<Rightarrow> Inl e
                | Inr topk_dict \<Rightarrow> first_token_dict (encoding self) topk_dict [])))"

definition instruct_logprobs ::
  "OpenAIModel \<Rightarrow> string \<Rightarrow> logit_bias option \<Rightarrow> world \<Rightarrow> (error + logprob_map) \<times> world" where
  "instruct_logprobs self prefix logit_bias w =
     (case completions_create (client self) (instruct_request self prefix logit_bias) w of
        (Inl e, w') \<Rightarrow> (Inl e, w')
      | (Inr response, w') \<Rightarrow> (instruct_normalize self response, w'))"

text \<open>The keyword arguments of the two requests of \<^verbatim>\<open>_chat_logprobs\<close>.\<close>

definition chat_messages :: "OpenAIModel \<Rightarrow> string \<Rightarrow> chat_message list" where
  "chat_messages self prefix =
     [\<lparr> msg_role = ''system'', msg_content = system self \<rparr>,
      \<lparr> msg_role = ''user'', msg_content = prefix \<rparr>]"

definition chat_request_of :: "OpenAIModel \<Rightarrow> string \<Rightarrow> logit_bias option \<Rightarrow> chat_request" where
  "chat_request_of self prefix logit_bias =
     (case logit_bias of
        Some lb \<Rightarrow>
          \<lparr> ch_model = model self, ch_messages = chat_messages self prefix,
            ch_temperature = 1, ch_max_tokens = 1, ch_logit_bias = Some lb, ch_n = None,
            ch_logprobs = Some True, ch_top_logprobs = Some 5 \<rparr>
      | None \<Rightarrow>
          \<lparr> ch_model = model self, ch_messages = chat_messages self prefix,
            ch_temperature = 1, ch_max_tokens = 1, ch_logit_bias = None, ch_n = None,
            ch_logprobs = Some True, ch_top_logprobs = Some 5 \<rparr>)"

text \<open>\<^verbatim>\<open>response.choices[0].logprobs.content[0].top_logprobs\<close>, then the comprehension.\<close>

definition chat_normalize :: "OpenAIModel \<Rightarrow> chat_completion \<Rightarrow> error + logprob_map" where
  "chat_normalize self response =
     (case getitem0 (chat_choices response) of
        Inl e \<Rightarrow> Inl e
      | Inr choice \<Rightarrow>
          (case chc_logprobs choice of
             None \<Rightarrow> Inl AttributeError
           | Some lps \<Rightarrow>
               (case getitem0 (ccl_content lps) of
                  Inl e \<Rightarrow> Inl e
                | Inr position \<Rightarrow>
                    first_token_dict (encoding self)
                      (map (\<lambda>lp. (tlp_token lp, tlp_logprob lp)) (tk_top_logprobs position)) [])))"

definition chat_logprobs ::
  "OpenAIModel \<Rightarrow> string \<Rightarrow> logit_bias option \<Rightarrow> world \<Rightarrow> (error + logprob_map) \<times> world" where
  "chat_logprobs self prefix logit_bias w =
     (case chat_completions_create (client self) (chat_request_of self prefix logit_bias) w of
        (Inl e, w') \<Rightarrow> (Inl e, w')
      | (Inr response, w') \<Rightarrow> (chat_normalize self response, w'))"

subsection \<open>\<^verbatim>\<open>topk\<close>: dispatch and retry\<close>

text \<open>The body of the \<^verbatim>\<open>try\<close>: one attempt.\<close>

definition topk_attempt ::
  "OpenAIModel \<Rightarrow> string \<Rightarrow> logit_bias option \<Rightarrow> world \<Rightarrow> (error + logprob_map) \<times> world" where
  "topk_attempt self prefix logit_bias w =
     (if model self \<in> set [''gpt-3.5-turbo-instruct'', ''babbage-002'', ''davinci-002'']
      then instruct_logprobs self prefix logit_bias w
      else if startswith (model self) ''gpt-4'' \<or> startswith (model self) ''gpt-3''
      then chat_logprobs self prefix logit_bias w
      else (Inl (NotImplementedError (''Tried to get topk logprobs for: '' @ model self)), w))"

text \<open>
  \<^verbatim>\<open>for i in range(self.max_api_retries)\<close>: the list holds the values of \<^verbatim>\<open>i\<close> still to
  come. Only IndexError is caught; after it the loop sleeps and goes on. When the list
  is used up the function ends without a \<^verbatim>\<open>return\<close>, so its value is \<^verbatim>\<open>None\<close>.
\<close>

fun topk_loop ::
  "OpenAIModel \<Rightarrow> string \<Rightarrow> logit_bias option \<Rightarrow> nat list \<Rightarrow> world \<Rightarrow>
   (error + logprob_map option) \<times> world" where
  "topk_loop self prefix logit_bias [] w = (Inr None, w)"
| "topk_loop self prefix logit_bias (i # rest) w =
     (case topk_attempt self prefix logit_bias w of
        (Inr d, w') \<Rightarrow> (Inr (Some d), w')
      | (Inl e, w') \<Rightarrow>
          if e = IndexError
          then topk_loop self prefix logit_bias rest (sleep (10 * (i + 1)) w')
          else (Inl e, w'))"

text \<open>\<^verbatim>\<open>topk(self, prefix, logit_bias={})\<close>.\<close>

definition topk ::
  "OpenAIModel \<Rightarrow> string \<Rightarrow> logit_bias option arg \<Rightarrow> world \<Rightarrow>
   (error + logprob_map option) \<times> world" where
  "topk self prefix logit_bias w =
     topk_loop self prefix (arg_or_default (Some []) logit_bias)
       [0 ..< nat (max_api_retries self)] w"

subsection \<open>\<^verbatim>\<open>argmax\<close>\<close>

text \<open>
  A list comprehension whose elements may raise: the elements are computed in order and the
  first exception ends the comprehension.
\<close>

fun collect :: "(error + 'a) list \<Rightarrow> error + 'a list" where
  "collect [] = Inr []"
| "collect (x # xs) =
     (case x of
        Inl e \<Rightarrow> Inl e
      | Inr v \<Rightarrow> (case collect xs of Inl e \<Rightarrow> Inl e | Inr vs \<Rightarrow> Inr (v # vs)))"

text \<open>\<^verbatim>\<open>d[key]\<close> on a dict with string keys.\<close>

definition getitem_str :: "(string, 'v) dict \<Rightarrow> string \<Rightarrow> error + 'v" where
  "getitem_str d key = (case map_of d key of None \<Rightarrow> Inl (KeyErrorStr key) | Some v \<Rightarrow> Inr v)"

definition argmax_completion_request ::
  "OpenAIModel \<Rightarrow> string \<Rightarrow> logit_bias option \<Rightarrow> completion_request" where
  "argmax_completion_request self prefix logit_bias =
     (case logit_bias of
        Some lb \<Rightarrow>
          \<lparr> cr_model = model self, cr_prompt = prefix, cr_temperature = 0, cr_max_tokens = 1,
            cr_logit_bias = Some lb, cr_n = Some 1, cr_logprobs = None \<rparr>
      | None \<Rightarrow>
          \<lparr> cr_model = model self, cr_prompt = prefix, cr_temperature = 0, cr_max_tokens = 1,
            cr_logit_bias = None, cr_n = Some 1, cr_logprobs = None \<rparr>)"

definition argmax_chat_request ::
  "OpenAIModel \<Rightarrow> string \<Rightarrow> logit_bias option \<Rightarrow> chat_request" where
  "argmax_chat_request self prefix logit_bias =
     (case logit_bias of
        Some lb \<Rightarrow>
          \<lparr> ch_model = model self, ch_messages = chat_messages self prefix,
            ch_temperature = 0, ch_max_tokens = 1, ch_logit_bias = Some lb, ch_n = Some 1,
            ch_logprobs = None, ch_top_logprobs = None \<rparr>
      | None \<Rightarrow>
          \<lparr> ch_model = model self, ch_messages = chat_messages self prefix,
            ch_temperature = 0, ch_max_tokens = 1, ch_logit_bias = None, ch_n = Some 1,
            ch_logprobs = None, ch_top_logprobs = None \<rparr>)"

text \<open>\<^verbatim>\<open>enc.encode("<|endoftext|>", allowed_special={"<|endoftext|>", "<|im_start|>"})[0]\<close>.\<close>

definition eos_idx :: "codec \<Rightarrow> error + token_id" where
  "eos_idx enc =
     getitem0 (encode_allowed enc {''<|endoftext|>'', ''<|im_start|>''} ''<|endoftext|>'')"

text \<open>
  What the legacy branch of \<^verbatim>\<open>argmax\<close> does with the response: \<^verbatim>\<open>output\<close>, \<^verbatim>\<open>eos_idx\<close>,
  \<^verbatim>\<open>outputs\<close>, and the \<^verbatim>\<open>return enc.encode(output)[0]\<close> that both branches share.
\<close>

definition argmax_decode_completion :: "codec \<Rightarrow> completion \<Rightarrow> error + token_id" where
  "argmax_decode_completion enc response =
     (case getitem0 (cmpl_choices response) of
        Inl e \<Rightarrow> Inl e
      | Inr choice \<Rightarrow>
          (case eos_idx enc of
             Inl e \<Rightarrow> Inl e
           | Inr eos \<Rightarrow> getitem0 (encode enc (cc_text choice))))"

text \<open>
  The chat branch: \<^verbatim>\<open>output\<close>, \<^verbatim>\<open>outputs\<close> (one \<^verbatim>\<open>message["content"]\<close> for every
  choice), \<^verbatim>\<open>eos_idx\<close>, and the shared \<^verbatim>\<open>return\<close>.
\<close>

definition argmax_decode_chat :: "codec \<Rightarrow> chat_completion \<Rightarrow> error + token_id" where
  "argmax_decode_chat enc response =
     (case getitem0 (chat_choices response) of
        Inl e \<Rightarrow> Inl e
      | Inr choice \<Rightarrow>
          (case getitem_str (chc_message choice) ''content'' of
             Inl e \<Rightarrow> Inl e
           | Inr output \<Rightarrow>
               (case collect (map (\<lambda>c. getitem_str (chc_message c) ''content'')
                                 (chat_choices response)) of
                  Inl e \<Rightarrow> Inl e
                | Inr outputs \<Rightarrow>
                    (case eos_idx enc of
                       Inl e \<Rightarrow> Inl e
                     | Inr eos \<Rightarrow> getitem0 (encode enc output)))))"

text \<open>\<^verbatim>\<open>argmax(self, prefix, logit_bias={})\<close>. It has no retry.\<close>

definition argmax ::
  "tiktoken \<Rightarrow> OpenAIModel \<Rightarrow> string \<Rightarrow> logit_bias option arg \<Rightarrow> world \<Rightarrow>
   (error + token_id) \<times> world" where
  "argmax encoding_for_model self prefix logit_bias w =
     (case encoding_for_model (model self) of
        Inl e \<Rightarrow> (Inl e, w)
      | Inr enc \<Rightarrow>
          if model self = ''gpt-3.5-turbo-instruct''
          then
            (case completions_create (client self)
                    (argmax_completion_request self prefix
                       (arg_or_default (Some []) logit_bias)) w of
               (Inl e, w') \<Rightarrow> (Inl e, w')
             | (Inr response, w') \<Rightarrow> (argmax_decode_completion enc response, w'))
          else
            (case chat_completions_create (client self)
                    (argmax_chat_request self prefix
                       (arg_or_default (Some []) logit_bias)) w of
               (Inl e, w') \<Rightarrow> (Inl e, w')
             | (Inr response, w') \<Rightarrow> (argmax_decode_chat enc response, w')))"

section \<open>\<^verbatim>\<open>class Model\<close>: the aggregators\<close>

text \<open>
  \<^verbatim>\<open>[self.topk(*args, **kwargs) for _ in range(k)]\<close>: the same query, \<open>n\<close> times, one
  after the other; an exception in one call ends the comprehension.
\<close>

fun repeat_query ::
  "nat \<Rightarrow> (world \<Rightarrow> (error + 'a) \<times> world) \<Rightarrow> world \<Rightarrow> (error + 'a list) \<times> world" where
  "repeat_query 0 q w = (Inr [], w)"
| "repeat_query (Suc n) q w =
     (case q w of
        (Inl e, w') \<Rightarrow> (Inl e, w')
      | (Inr r, w') \<Rightarrow>
          (case repeat_query n q w' of
             (Inl e, w'') \<Rightarrow> (Inl e, w'')
           | (Inr rs, w'') \<Rightarrow> (Inr (r # rs), w'')))"

text \<open>
  \<^verbatim>\<open>np.median\<close> of a list of floats: the middle element of the sorted list, or the mean
  of the two middle elements when the length is even; \<^verbatim>\<open>nan\<close> (here \<open>None\<close>) for the
  empty list.
\<close>

definition np_median :: "real list \<Rightarrow> real option" where
  "np_median xs =
     (let s = sort xs; n = length s
      in if n = 0 then None
         else if n mod 2 = 1 then Some (s ! (n div 2))
         else Some ((s ! (n div 2 - 1) + s ! (n div 2)) / 2))"

text \<open>
  \<^verbatim>\<open>result[word]\<close>: TypeError when \<^verbatim>\<open>result\<close> is \<^verbatim>\<open>None\<close>, KeyError when the key is
  missing.
\<close>

definition getitem_word :: "logprob_map option \<Rightarrow> token_id \<Rightarrow> error + real" where
  "getitem_word result word =
     (case result of
        None \<Rightarrow> Inl TypeError
      | Some d \<Rightarrow> (case map_of d word of None \<Rightarrow> Inl (KeyErrorTok word) | Some v \<Rightarrow> Inr v))"

text \<open>\<^verbatim>\<open>np.median([result[word] for result in results])\<close>.\<close>

definition median_of_word :: "logprob_map option list \<Rightarrow> token_id \<Rightarrow> error + real" where
  "median_of_word results word =
     (case collect (map (\<lambda>result. getitem_word result word) results) of
        Inl e \<Rightarrow> Inl e
      | Inr vals \<Rightarrow> (case np_median vals of None \<Rightarrow> Inl NanResult | Some m \<Rightarrow> Inr m))"

text \<open>The dict comprehension \<^verbatim>\<open>{word: np.median(...) for word in keys}\<close>.\<close>

fun median_dict ::
  "logprob_map option list \<Rightarrow> token_id list \<Rightarrow> logprob_map \<Rightarrow> error + logprob_map" where
  "median_dict results [] acc = Inr acc"
| "median_dict results (word # ws) acc =
     (case median_of_word results word of
        Inl e \<Rightarrow> Inl e
      | Inr m \<Rightarrow> median_dict results ws (AList.update word m acc))"

text \<open>
  The \<^verbatim>\<open>return\<close> of \<^verbatim>\<open>median_topk\<close>: \<^verbatim>\<open>results[0]\<close> raises IndexError on an empty list
  and \<^verbatim>\<open>.keys()\<close> raises AttributeError on \<^verbatim>\<open>None\<close>.
\<close>

definition median_of_results :: "logprob_map option list \<Rightarrow> error + logprob_map" where
  "median_of_results results =
     (case getitem0 results of
        Inl e \<Rightarrow> Inl e
      | Inr first \<Rightarrow>
          (case first of
             None \<Rightarrow> Inl AttributeError
           | Some d \<Rightarrow> median_dict results (map fst d) []))"

text \<open>
  \<^verbatim>\<open>median_topk(self, k, *args, **kwargs)\<close> of the base class, with the bound call
  \<^verbatim>\<open>self.topk(*args, **kwargs)\<close> as its first argument. \<^verbatim>\<open>range(k)\<close> is empty for
  \<open>k \<le> 0\<close>.
\<close>

definition Model_median_topk ::
  "(world \<Rightarrow> (error + logprob_map option) \<times> world) \<Rightarrow> int \<Rightarrow> world \<Rightarrow>
   (error + logprob_map) \<times> world" where
  "Model_median_topk topk_call k w =
     (case repeat_query (nat k) topk_call w of
        (Inl e, w') \<Rightarrow> (Inl e, w')
      | (Inr results, w') \<Rightarrow> (median_of_results results, w'))"

text \<open>
  \<^verbatim>\<open>median_argmax(self, k, *args, **kwargs)\<close>: after the \<open>k\<close> queries it calls
  \<^verbatim>\<open>np.median()\<close> with no argument, which raises TypeError.
\<close>

definition Model_median_argmax ::
  "(world \<Rightarrow> (error + token_id) \<times> world) \<Rightarrow> int \<Rightarrow> world \<Rightarrow> (error + real) \<times> world" where
  "Model_median_argmax argmax_call k w =
     (case repeat_query (nat k) argmax_call w of
        (Inl e, w') \<Rightarrow> (Inl e, w')
      | (Inr results, w') \<Rightarrow> (Inl TypeError, w'))"

text \<open>The two methods as \<^verbatim>\<open>OpenAIModel\<close> inherits them.\<close>

definition median_topk ::
  "OpenAIModel \<Rightarrow> int \<Rightarrow> string \<Rightarrow> logit_bias option arg \<Rightarrow> world \<Rightarrow>
   (error + logprob_map) \<times> world" where
  "median_topk self k prefix logit_bias = Model_median_topk (topk self prefix logit_bias) k"

definition median_argmax ::
  "tiktoken \<Rightarrow> OpenAIModel \<Rightarrow> int \<Rightarrow> string \<Rightarrow> logit_bias option arg \<Rightarrow> world \<Rightarrow>
   (error + real) \<times> world" where
  "median_argmax encoding_for_model self k prefix logit_bias =
     Model_median_argmax (argmax encoding_for_model self prefix logit_bias) k"

section \<open>Vocabulary of the statements\<close>

text \<open>The number of requests in a trace.\<close>

fun is_request :: "event \<Rightarrow> bool" where
  "is_request (CompletionsCreate r) = True"
| "is_request (ChatCompletionsCreate r) = True"
| "is_request (Sleep n) = False"

definition calls_made :: "world \<Rightarrow> nat" where
  "calls_made w = length (filter is_request w)"

text \<open>
  The events that one attempt of \<^verbatim>\<open>topk\<close> adds to the trace: the request of the branch
  that the model identifier selects, and nothing for an identifier of neither family.
\<close>

definition attempt_events :: "OpenAIModel \<Rightarrow> string \<Rightarrow> logit_bias option \<Rightarrow> event list" where
  "attempt_events self prefix logit_bias =
     (if model self \<in> set [''gpt-3.5-turbo-instruct'', ''babbage-002'', ''davinci-002'']
      then [CompletionsCreate (instruct_request self prefix logit_bias)]
      else if startswith (model self) ''gpt-4'' \<or> startswith (model self) ''gpt-3''
      then [ChatCompletionsCreate (chat_request_of self prefix logit_bias)]
      else [])"

text \<open>
  The events of a run of failed attempts, one for each loop index in the list: the
  attempt's request and then the sleep of \<open>10 * (i + 1)\<close> seconds.
\<close>

definition retry_events ::
  "OpenAIModel \<Rightarrow> string \<Rightarrow> logit_bias option \<Rightarrow> nat list \<Rightarrow> event list" where
  "retry_events self prefix logit_bias attempts =
     concat (map (\<lambda>i. attempt_events self prefix logit_bias @ [Sleep (10 * (i + 1))]) attempts)"

text \<open>The durations of the sleeps in a trace, in order.\<close>

fun sleeps_of :: "event list \<Rightarrow> nat list" where
  "sleeps_of [] = []"
| "sleeps_of (Sleep n # es) = n # sleeps_of es"
| "sleeps_of (e # es) = sleeps_of es"


text \<open>The \<^verbatim>\<open>logit_bias\<close> keyword of every request in a trace, in order.\<close>

fun biases_of :: "event list \<Rightarrow> logit_bias option list" where
  "biases_of [] = []"
| "biases_of (CompletionsCreate r # es) = cr_logit_bias r # biases_of es"
| "biases_of (ChatCompletionsCreate r # es) = ch_logit_bias r # biases_of es"
| "biases_of (Sleep n # es) = biases_of es"


text \<open>
  The values that the results hold for one token, in the order of the results. When every
  result is a map with that token, this is the list that \<^verbatim>\<open>median_topk\<close> hands to
  \<^verbatim>\<open>np.median\<close>.
\<close>

definition values_of :: "token_id \<Rightarrow> logprob_map option list \<Rightarrow> real list" where
  "values_of word results =
     concat (map (\<lambda>result. case result of
                     None \<Rightarrow> []
                   | Some d \<Rightarrow> (case map_of d word of None \<Rightarrow> [] | Some v \<Rightarrow> [v])) results)"

section \<open>Test doubles\<close>

text \<open>A tokenizer given by a table; a text that is not in the table encodes to no token.\<close>

definition table_codec :: "(string \<times> token_id list) list \<Rightarrow> codec" where
  "table_codec table =
     \<lparr> encode = (\<lambda>s. case map_of table s of None \<Rightarrow> [] | Some ts \<Rightarrow> ts),
       encode_allowed = (\<lambda>allowed s. [0]),
       n_vocab = 100 \<rparr>"

text \<open>A Shape A response with one choice and one top-logprobs entry.\<close>

definition one_entry :: "string \<Rightarrow> real \<Rightarrow> completion" where
  "one_entry txt lp =
     \<lparr> cmpl_choices =
         [\<lparr> cc_text = txt, cc_logprobs = Some \<lparr> cl_top_logprobs = [[(txt, lp)]] \<rparr> \<rparr>] \<rparr>"

text \<open>
  A legacy-family model whose backend answers the first two requests with no choices and
  every later one with the entry \<open>the \<mapsto> -0.5\<close>.
\<close>

definition flaky_instruct :: OpenAIModel where
  "flaky_instruct =
     \<lparr> model = ''gpt-3.5-turbo-instruct'',
       encoding = table_codec [(''the'', [7])],
       client = \<lparr> api_key = ''sk'',
                  completions_backend =
                    (\<lambda>v req. if calls_made v < 2 then Inr \<lparr> cmpl_choices = [] \<rparr>
                             else Inr (one_entry ''the'' (- 1 / 2))),
                  chat_backend = (\<lambda>v req. Inl (BackendError BadRequestError)) \<rparr>,
       system = ''You are a helpful assistant.'',
       max_api_retries = 5 \<rparr>"

text \<open>The request that \<^verbatim>\<open>topk("Hello")\<close> sends for that model.\<close>

definition hello_request :: completion_request where
  "hello_request =
     \<lparr> cr_model = ''gpt-3.5-turbo-instruct'', cr_prompt = ''Hello'', cr_temperature = 1,
       cr_max_tokens = 1, cr_logit_bias = Some [], cr_n = None, cr_logprobs = Some 5 \<rparr>"

text \<open>A model that \<^verbatim>\<open>tiktoken\<close> knows and that is in neither family of \<^verbatim>\<open>topk\<close>.\<close>

definition davinci3 :: OpenAIModel where
  "davinci3 =
     \<lparr> model = ''text-davinci-003'',
       encoding = table_codec [(''the'', [7])],
       client = \<lparr> api_key = ''sk'',
                  completions_backend = (\<lambda>v req. Inr (one_entry ''the'' (- 1 / 2))),
                  chat_backend = (\<lambda>v req. Inl (BackendError BadRequestError)) \<rparr>,
       system = ''You are a helpful assistant.'',
       max_api_retries = 5 \<rparr>"



text \<open>A legacy-family model whose backend never gives a choice.\<close>

definition silent_instruct :: OpenAIModel where
  "silent_instruct =
     \<lparr> model = ''gpt-3.5-turbo-instruct'',
       encoding = table_codec [(''the'', [7])],
       client = \<lparr> api_key = ''sk'',
                  completions_backend = (\<lambda>v req. Inr \<lparr> cmpl_choices = [] \<rparr>),
                  chat_backend = (\<lambda>v req. Inr \<lparr> chat_choices = [] \<rparr>) \<rparr>,
       system = ''You are a helpful assistant.'',
       max_api_retries = 5 \<rparr>"

text \<open>A legacy-family model whose backend always gives the entry \<open>the \<mapsto> -0.5\<close>.\<close>

definition steady_instruct :: OpenAIModel where
  "steady_instruct =
     \<lparr> model = ''gpt-3.5-turbo-instruct'',
       encoding = table_codec [(''the'', [7])],
       client = \<lparr> api_key = ''sk'',
                  completions_backend = (\<lambda>v req. Inr (one_entry ''the'' (- 1 / 2))),
                  chat_backend = (\<lambda>v req. Inl (BackendError BadRequestError)) \<rparr>,
       system = ''You are a helpful assistant.'',
       max_api_retries = 5 \<rparr>"

definition table_tiktoken :: tiktoken where
  "table_tiktoken mdl = Inr (table_codec [(''the'', [7])])"

text \<open>The request that \<^verbatim>\<open>argmax("Hello")\<close> sends for a legacy-family model.\<close>

definition hello_argmax_request :: completion_request where
  "hello_argmax_request =
     \<lparr> cr_model = ''gpt-3.5-turbo-instruct'', cr_prompt = ''Hello'', cr_temperature = 0,
       cr_max_tokens = 1, cr_logit_bias = Some [], cr_n = Some 1, cr_logprobs = None \<rparr>"



section \<open>The trace of one attempt\<close>

lemma calls_made_append: "calls_made (w @ v) = calls_made w + calls_made v"
  by (simp add: calls_made_def)

lemma calls_made_request:
  "calls_made [CompletionsCreate r] = 1" "calls_made [ChatCompletionsCreate c] = 1"
  by (simp_all add: calls_made_def)

lemma snd_instruct_logprobs:
  "snd (instruct_logprobs self prefix lb w) =
     w @ [CompletionsCreate (instruct_request self prefix lb)]"
  by (simp add: instruct_logprobs_def completions_create_def split: sum.splits)

lemma snd_chat_logprobs:
  "snd (chat_logprobs self prefix lb w) =
     w @ [ChatCompletionsCreate (chat_request_of self prefix lb)]"
  by (simp add: chat_logprobs_def chat_completions_create_def split: sum.splits)

lemma snd_topk_attempt:
  "snd (topk_attempt self prefix lb w) = w @ attempt_events self prefix lb"
  by (simp add: topk_attempt_def attempt_events_def snd_instruct_logprobs snd_chat_logprobs)

lemma sleeps_of_append: "sleeps_of (u @ v) = sleeps_of u @ sleeps_of v"
  by (induction u rule: sleeps_of.induct) simp_all

lemma sleeps_of_attempt_events: "sleeps_of (attempt_events self prefix lb) = []"
  by (simp add: attempt_events_def)

lemma sleeps_of_retry_events:
  "sleeps_of (retry_events self prefix lb attempts) = map (\<lambda>i. 10 * (i + 1)) attempts"
  by (induction attempts)
     (simp_all add: retry_events_def sleeps_of_append sleeps_of_attempt_events)

lemma retry_events_Cons:
  "retry_events self prefix lb (i # attempts) =
     attempt_events self prefix lb @ [Sleep (10 * (i + 1))]
     @ retry_events self prefix lb attempts"
  by (simp add: retry_events_def)

lemma calls_made_retry_events:
  "calls_made (retry_events self prefix lb attempts) =
     length attempts * calls_made (attempt_events self prefix lb)"
  by (induction attempts) (simp_all add: retry_events_def calls_made_def)

section \<open>The retry loop, one iteration at a time\<close>

lemma topk_loop_step_index_error:
  assumes "fst (topk_attempt self prefix lb w) = Inl IndexError"
  shows "topk_loop self prefix lb (i # rest) w =
         topk_loop self prefix lb rest
           (w @ attempt_events self prefix lb @ [Sleep (10 * (i + 1))])"
proof -
  have "topk_attempt self prefix lb w = (Inl IndexError, w @ attempt_events self prefix lb)"
    using assms snd_topk_attempt[of self prefix lb w]
    by (cases "topk_attempt self prefix lb w") simp
  then show ?thesis by (simp add: sleep_def)
qed


lemma topk_loop_step_success:
  assumes "fst (topk_attempt self prefix lb w) = Inr d"
  shows "topk_loop self prefix lb (i # rest) w =
         (Inr (Some d), w @ attempt_events self prefix lb)"
proof -
  have "topk_attempt self prefix lb w = (Inr d, w @ attempt_events self prefix lb)"
    using assms snd_topk_attempt[of self prefix lb w]
    by (cases "topk_attempt self prefix lb w") simp
  then show ?thesis by simp
qed

text \<open>
  A run of attempts that all end in IndexError: the loop goes through them, and the trace
  grows by their requests and sleeps. Each attempt is made in the world that the earlier
  ones have left.
\<close>

lemma topk_loop_retries:
  assumes "\<forall>j<length failed.
             fst (topk_attempt self prefix lb (w @ retry_events self prefix lb (take j failed)))
               = Inl IndexError"
  shows "topk_loop self prefix lb (failed @ rest) w =
         topk_loop self prefix lb rest (w @ retry_events self prefix lb failed)"
  using assms
proof (induction failed arbitrary: w)
  case Nil
  show ?case by (simp add: retry_events_def)
next
  case (Cons i failed)
  let ?w1 = "w @ attempt_events self prefix lb @ [Sleep (10 * (i + 1))]"
  have first: "fst (topk_attempt self prefix lb w) = Inl IndexError"
    using Cons.prems[rule_format, of 0] by (simp add: retry_events_def)
  have "\<forall>j<length failed.
          fst (topk_attempt self prefix lb (?w1 @ retry_events self prefix lb (take j failed)))
            = Inl IndexError"
  proof (intro allI impI)
    fix j
    assume "j < length failed"
    then have "Suc j < length (i # failed)" by simp
    from Cons.prems[rule_format, OF this]
    show "fst (topk_attempt self prefix lb (?w1 @ retry_events self prefix lb (take j failed)))
            = Inl IndexError"
      by (simp add: retry_events_Cons)
  qed
  from Cons.IH[OF this]
  have "topk_loop self prefix lb (failed @ rest) ?w1 =
        topk_loop self prefix lb rest (?w1 @ retry_events self prefix lb failed)" .
  moreover have "topk_loop self prefix lb ((i # failed) @ rest) w =
        topk_loop self prefix lb (failed @ rest) ?w1"
    using topk_loop_step_index_error[OF first] by simp
  ultimately show ?case by (simp add: retry_events_Cons)
qed

lemma retries_split:
  assumes "n < m"
  shows "[0 ..< m] = [0 ..< n] @ n # [Suc n ..< m]"
proof -
  from assms have "[0 ..< n + (m - n)] = [0 ..< n] @ [n ..< n + (m - n)]"
    by (intro upt_add_eq_append) simp
  with assms have "[0 ..< m] = [0 ..< n] @ [n ..< m]" by simp
  with assms show ?thesis by (simp add: upt_conv_Cons)
qed

text \<open>What the test doubles do in one attempt.\<close>

lemma flaky_attempt:
  "fst (topk_attempt flaky_instruct ''Hello'' (Some []) v) =
     (if calls_made v < 2 then Inl IndexError else Inr [(7, - 1 / 2)])"
  by (simp add: topk_attempt_def instruct_logprobs_def completions_create_def
      flaky_instruct_def instruct_normalize_def getitem0_def one_entry_def table_codec_def)

lemma flaky_events:
  "attempt_events flaky_instruct ''Hello'' (Some []) = [CompletionsCreate hello_request]"
  by (simp add: attempt_events_def flaky_instruct_def instruct_request_def hello_request_def)

lemma upt_0_2: "[0 ..< 2] = [0, 1]"
  by (simp add: upt_rec)

lemma upt_0_5: "[0 ..< 5] = [0, 1, 2, 3, 4]"
  by (simp add: upt_rec)

lemma silent_attempt:
  "fst (topk_attempt silent_instruct ''Hello'' (Some []) v) = Inl IndexError"
  by (simp add: topk_attempt_def instruct_logprobs_def completions_create_def
      silent_instruct_def instruct_normalize_def getitem0_def)

lemma silent_events:
  "attempt_events silent_instruct ''Hello'' (Some []) = [CompletionsCreate hello_request]"
  by (simp add: attempt_events_def silent_instruct_def instruct_request_def hello_request_def)

lemma steady_argmax:
  "argmax table_tiktoken steady_instruct ''Hello'' Omitted w =
     (Inr 7, w @ [CompletionsCreate hello_argmax_request])"
  by (simp add: argmax_def table_tiktoken_def steady_instruct_def completions_create_def
      argmax_completion_request_def arg_or_default_def hello_argmax_request_def
      argmax_decode_completion_def one_entry_def getitem0_def eos_idx_def table_codec_def)

text \<open>
  When every attempt ends in IndexError the loop runs out: \<^verbatim>\<open>topk\<close> has made
  \<^verbatim>\<open>max_api_retries\<close> attempts, has slept after each of them, the last one included, and
  returns \<^verbatim>\<open>None\<close>.
\<close>

lemma topk_retries_exhausted:
  assumes "\<forall>j<nat (max_api_retries self).
           fst (topk_attempt self prefix (arg_or_default (Some []) logit_bias)
                  (w @ retry_events self prefix (arg_or_default (Some []) logit_bias) [0 ..< j]))
             = Inl IndexError"
  shows "topk self prefix logit_bias w =
     (Inr None, w @ retry_events self prefix (arg_or_default (Some []) logit_bias)
                      [0 ..< nat (max_api_retries self)])"
proof -
  let ?lb = "arg_or_default (Some []) logit_bias"
  let ?is = "[0 ..< nat (max_api_retries self)]"
  have "\<forall>j<length ?is.
          fst (topk_attempt self prefix ?lb (w @ retry_events self prefix ?lb (take j ?is)))
            = Inl IndexError"
    using assms by simp
  from topk_loop_retries[OF this, of "[]"] show ?thesis
    by (simp add: topk_def)
qed

lemma silent_topk:
  "topk silent_instruct ''Hello'' Omitted [] =
     (Inr None,
      [CompletionsCreate hello_request, Sleep 10,
       CompletionsCreate hello_request, Sleep 20,
       CompletionsCreate hello_request, Sleep 30,
       CompletionsCreate hello_request, Sleep 40,
       CompletionsCreate hello_request, Sleep 50])"
proof -
  have budget: "nat (max_api_retries silent_instruct) = 5"
    by (simp add: silent_instruct_def)
  have "\<forall>j<nat (max_api_retries silent_instruct).
      fst (topk_attempt silent_instruct ''Hello'' (arg_or_default (Some []) Omitted)
             ([] @ retry_events silent_instruct ''Hello'' (arg_or_default (Some []) Omitted)
                     [0 ..< j])) = Inl IndexError"
    by (simp add: arg_or_default_def silent_attempt)
  from topk_retries_exhausted[OF this]
  show ?thesis
    by (simp add: budget arg_or_default_def silent_events retry_events_def upt_0_5)
qed

section \<open>\<^verbatim>\<open>median_argmax\<close>\<close>

text \<open>Whatever the queries give, \<^verbatim>\<open>median_argmax\<close> ends in an exception.\<close>

lemma median_argmax_never_returns:
  "\<exists>e. fst (median_argmax encoding_for_model self k prefix logit_bias w) = Inl e"
  by (simp add: median_argmax_def Model_median_argmax_def split: prod.splits sum.splits)

text \<open>
  Claim C1 says that \<^verbatim>\<open>median_argmax(k, prefix, logit_bias)\<close> makes \<open>k\<close> argmax queries
  and returns the median of the \<open>k\<close> token ids. The code makes the queries and then calls
  \<^verbatim>\<open>np.median()\<close> without the list. With a backend that answers every query with the text
  \<open>the\<close> (token 7) and \<open>k = 3\<close>, three requests are sent and the call raises TypeError; the
  median would be 7.
\<close>

theorem median_argmax_raises_TypeError:
  "median_argmax table_tiktoken steady_instruct 3 ''Hello'' Omitted [] =
     (Inl TypeError,
      [CompletionsCreate hello_argmax_request, CompletionsCreate hello_argmax_request,
       CompletionsCreate hello_argmax_request])"
  by (simp add: median_argmax_def Model_median_argmax_def numeral_3_eq_3 steady_argmax)

section \<open>Retry exhaustion\<close>

text \<open>
  Claim C2 says that when every attempt fails with the empty-response failure, \<^verbatim>\<open>topk\<close>
  raises a retries-exhausted failure after exactly \<^verbatim>\<open>max_attempts\<close> attempts and never
  returns an absent value. The loop is bounded (\<open>topk_retries_exhausted\<close>: exactly
  \<^verbatim>\<open>max_api_retries\<close> attempts), but after the last attempt it sleeps once more and the
  function ends without a \<^verbatim>\<open>return\<close> or a \<^verbatim>\<open>raise\<close>: with a backend that never gives a
  choice and the budget of 5, \<^verbatim>\<open>topk\<close> sends five requests, sleeps 10, 20, 30, 40 and 50
  seconds, and returns \<^verbatim>\<open>None\<close>.
\<close>

theorem topk_exhausted_returns_None:
  "topk silent_instruct ''Hello'' Omitted [] =
     (Inr None,
      [CompletionsCreate hello_request, Sleep 10,
       CompletionsCreate hello_request, Sleep 20,
       CompletionsCreate hello_request, Sleep 30,
       CompletionsCreate hello_request, Sleep 40,
       CompletionsCreate hello_request, Sleep 50])"
  by (rule silent_topk)

section \<open>The logit bias of a request\<close>

lemma biases_of_append: "biases_of (u @ v) = biases_of u @ biases_of v"
  by (induction u rule: biases_of.induct) simp_all

lemma biases_of_attempt_events:
  "set (biases_of (attempt_events self prefix lb)) \<subseteq> {lb}"
  by (cases lb) (simp_all add: attempt_events_def instruct_request_def chat_request_of_def)

text \<open>Every request of the retry loop carries the bias that the loop was given.\<close>

lemma topk_loop_biases:
  "\<exists>new. snd (topk_loop self prefix lb attempts w) = w @ new \<and> set (biases_of new) \<subseteq> {lb}"
proof (induction attempts arbitrary: w)
  case Nil
  show ?case by simp
next
  case (Cons i attempts)
  let ?ev = "attempt_events self prefix lb"
  obtain r where r: "topk_attempt self prefix lb w = (r, w @ ?ev)"
    using snd_topk_attempt[of self prefix lb w]
    by (cases "topk_attempt self prefix lb w") simp
  have ev: "set (biases_of ?ev) \<subseteq> {lb}"
    by (rule biases_of_attempt_events)
  show ?case
  proof (cases r)
    case (Inr d)
    with r ev show ?thesis by simp
  next
    case (Inl e)
    show ?thesis
    proof (cases "e = IndexError")
      case False
      with r Inl ev show ?thesis by simp
    next
      case True
      let ?w1 = "w @ ?ev @ [Sleep (10 * (i + 1))]"
      from True r Inl have step: "topk_loop self prefix lb (i # attempts) w =
          topk_loop self prefix lb attempts ?w1"
        by (simp add: sleep_def)
      from Cons.IH[of ?w1] obtain new where
        new: "snd (topk_loop self prefix lb attempts ?w1) = ?w1 @ new"
        and b: "set (biases_of new) \<subseteq> {lb}" by blast
      have "snd (topk_loop self prefix lb (i # attempts) w)
          = w @ (?ev @ [Sleep (10 * (i + 1))] @ new)"
        using step new by simp
      moreover have "set (biases_of (?ev @ [Sleep (10 * (i + 1))] @ new)) \<subseteq> {lb}"
        using ev b by (simp add: biases_of_append)
      ultimately show ?thesis by blast
    qed
  qed
qed

lemma topk_biases:
  "\<exists>new. snd (topk self prefix logit_bias w) = w @ new
     \<and> set (biases_of new) \<subseteq> {arg_or_default (Some []) logit_bias}"
  unfolding topk_def by (rule topk_loop_biases)

lemma argmax_biases:
  "\<exists>new. snd (argmax encoding_for_model self prefix logit_bias w) = w @ new
     \<and> set (biases_of new) \<subseteq> {arg_or_default (Some []) logit_bias}"
  by (cases "arg_or_default (Some []) logit_bias")
     (auto simp: argmax_def completions_create_def chat_completions_create_def
        argmax_completion_request_def argmax_chat_request_def
        split: sum.splits prod.splits)

lemma steady_attempt:
  "topk_attempt steady_instruct ''Hello'' (Some []) [] =
     (Inr [(7, - 1 / 2)], [CompletionsCreate hello_request])"
  by (simp add: topk_attempt_def instruct_logprobs_def completions_create_def
      steady_instruct_def instruct_normalize_def getitem0_def one_entry_def table_codec_def
      instruct_request_def hello_request_def)

text \<open>
  Claim C3 says that a call of \<^verbatim>\<open>argmax\<close> or \<^verbatim>\<open>topk\<close> without a \<^verbatim>\<open>logit_bias\<close> argument
  sends a request without the \<^verbatim>\<open>logit_bias\<close> parameter, not one with an empty map. The
  parameter's default is \<^verbatim>\<open>{}\<close>, which is not \<^verbatim>\<open>None\<close>, so the branch that passes
  \<^verbatim>\<open>logit_bias=logit_bias\<close> is taken: the requests of \<^verbatim>\<open>topk("Hello")\<close> and of
  \<^verbatim>\<open>argmax("Hello")\<close> carry the empty map.
\<close>

theorem omitted_logit_bias_counterexample:
  "snd (topk steady_instruct ''Hello'' Omitted []) = [CompletionsCreate hello_request]
   \<and> snd (argmax table_tiktoken steady_instruct ''Hello'' Omitted [])
       = [CompletionsCreate hello_argmax_request]
   \<and> cr_logit_bias hello_request = Some []
   \<and> cr_logit_bias hello_argmax_request = Some []
   \<and> cr_logit_bias hello_request \<noteq> None
   \<and> cr_logit_bias hello_argmax_request \<noteq> None"
proof -
  have "[0 ..< nat (max_api_retries steady_instruct)] = [0, 1, 2, 3, 4]"
    by (simp add: steady_instruct_def upt_0_5)
  then have "snd (topk steady_instruct ''Hello'' Omitted [])
      = [CompletionsCreate hello_request]"
    by (simp add: topk_def arg_or_default_def steady_attempt)
  then show ?thesis
    by (simp add: steady_argmax hello_request_def hello_argmax_request_def)
qed

text \<open>
  Claim C3 as amended. Every request that a call of \<^verbatim>\<open>topk\<close> or \<^verbatim>\<open>argmax\<close> adds to the
  trace carries the default empty map as its \<^verbatim>\<open>logit_bias\<close> when the caller leaves the
  argument out, and carries no \<^verbatim>\<open>logit_bias\<close> when the caller passes \<^verbatim>\<open>None\<close>.
\<close>

theorem request_carries_given_logit_bias:
  "(\<exists>new. snd (topk self prefix Omitted w) = w @ new \<and> set (biases_of new) \<subseteq> {Some []})
   \<and> (\<exists>new. snd (argmax encoding_for_model self prefix Omitted w) = w @ new
          \<and> set (biases_of new) \<subseteq> {Some []})
   \<and> (\<exists>new. snd (topk self prefix (Passed None) w) = w @ new
          \<and> set (biases_of new) \<subseteq> {None})
   \<and> (\<exists>new. snd (argmax encoding_for_model self prefix (Passed None) w) = w @ new
          \<and> set (biases_of new) \<subseteq> {None})"
  using topk_biases[of self prefix Omitted w] topk_biases[of self prefix "Passed None" w]
    argmax_biases[of encoding_for_model self prefix Omitted w]
    argmax_biases[of encoding_for_model self prefix "Passed None" w]
  by (simp add: arg_or_default_def)

section \<open>\<^verbatim>\<open>median_topk\<close>\<close>

text \<open>The list comprehension over the results, when every result has the token.\<close>

lemma collect_getitem_word:
  assumes "\<forall>r \<in> set results. \<exists>d. r = Some d \<and> word \<in> fst ` set d"
  shows "collect (map (\<lambda>result. getitem_word result word) results)
           = Inr (values_of word results)
         \<and> length (values_of word results) = length results"
  using assms
proof (induction results)
  case Nil
  show ?case by (simp add: values_of_def)
next
  case (Cons r results)
  from Cons.prems obtain d where d: "r = Some d" and "word \<in> fst ` set d" by auto
  then obtain v where v: "map_of d word = Some v"
    by (metis domD dom_map_of_conv_image_fst)
  from Cons have "collect (map (\<lambda>result. getitem_word result word) results)
           = Inr (values_of word results)"
    and "length (values_of word results) = length results" by auto
  with d v show ?case by (simp add: getitem_word_def values_of_def)
qed

lemma np_median_eq_None: "np_median xs = None \<longleftrightarrow> xs = []"
proof (cases "xs = []")
  case True
  then show ?thesis by (simp add: np_median_def)
next
  case False
  then have "np_median xs =
      (if length (sort xs) mod 2 = 1 then Some (sort xs ! (length (sort xs) div 2))
       else Some ((sort xs ! (length (sort xs) div 2 - 1)
                   + sort xs ! (length (sort xs) div 2)) / 2))"
    unfolding np_median_def Let_def by (simp only: length_sort length_0_conv if_False)
  then have "np_median xs \<noteq> None"
    by (metis option.distinct(1))
  with False show ?thesis by blast
qed

lemma np_median_single: "np_median [v] = Some v"
  by (simp add: np_median_def)

text \<open>
  What \<^const>\<open>np_median\<close> returns is a median of the list: at most half of the elements are
  below it and at most half are above it.
\<close>

lemma filter_length_mono:
  assumes "\<And>x. P x \<Longrightarrow> Q x"
  shows "length (filter P xs) \<le> length (filter Q xs)"
  using assms by (induction xs) auto

lemma filter_insort_length:
  "length (filter P (insort x ys)) = length (filter P (x # (ys :: real list)))"
  by (induction ys) auto

lemma filter_sort_length: "length (filter P (sort xs)) = length (filter P (xs :: real list))"
  by (induction xs) (simp_all add: filter_insort_length)

lemma sorted_below_count:
  assumes "sorted (s :: real list)" and "i < length s"
  shows "length (filter (\<lambda>x. x < s ! i) s) \<le> i"
proof -
  have "\<forall>x \<in> set (drop i s). s ! i \<le> x"
  proof
    fix x assume "x \<in> set (drop i s)"
    then obtain j where "j < length (drop i s)" and "x = drop i s ! j"
      by (metis in_set_conv_nth)
    then have "x = s ! (i + j)" and "i + j < length s" using assms(2) by auto
    with assms(1) show "s ! i \<le> x" by (simp add: sorted_nth_mono)
  qed
  then have "filter (\<lambda>x. x < s ! i) (drop i s) = []"
    by (auto simp: filter_empty_conv)
  moreover have "filter (\<lambda>x. x < s ! i) s
      = filter (\<lambda>x. x < s ! i) (take i s) @ filter (\<lambda>x. x < s ! i) (drop i s)"
    by (metis append_take_drop_id filter_append)
  ultimately have "length (filter (\<lambda>x. x < s ! i) s) \<le> length (take i s)"
    using length_filter_le[of "\<lambda>x. x < s ! i" "take i s"] by simp
  with assms(2) show ?thesis by simp
qed

lemma sorted_above_count:
  assumes "sorted (s :: real list)" and "i < length s"
  shows "length (filter (\<lambda>x. s ! i < x) s) \<le> length s - Suc i"
proof -
  have "\<forall>x \<in> set (take (Suc i) s). x \<le> s ! i"
  proof
    fix x assume "x \<in> set (take (Suc i) s)"
    then obtain j where j: "j < length (take (Suc i) s)" and x: "x = take (Suc i) s ! j"
      by (metis in_set_conv_nth)
    then have "x = s ! j" and "j \<le> i" by auto
    with assms show "x \<le> s ! i" by (simp add: sorted_nth_mono)
  qed
  then have "filter (\<lambda>x. s ! i < x) (take (Suc i) s) = []"
    by (auto simp: filter_empty_conv)
  moreover have "filter (\<lambda>x. s ! i < x) s
      = filter (\<lambda>x. s ! i < x) (take (Suc i) s) @ filter (\<lambda>x. s ! i < x) (drop (Suc i) s)"
    by (metis append_take_drop_id filter_append)
  ultimately have "length (filter (\<lambda>x. s ! i < x) s) \<le> length (drop (Suc i) s)"
    using length_filter_le[of "\<lambda>x. s ! i < x" "drop (Suc i) s"] by simp
  then show ?thesis by simp
qed

lemma np_median_is_median:
  assumes "np_median xs = Some m"
  shows "2 * length (filter (\<lambda>x. x < m) xs) \<le> length xs
       \<and> 2 * length (filter (\<lambda>x. m < x) xs) \<le> length xs"
proof -
  let ?s = "sort xs"
  let ?n = "length xs"
  have srt: "sorted ?s" by simp
  have len: "length ?s = ?n" by simp
  have ne: "?n \<noteq> 0" using assms by (auto simp: np_median_def)
  then have sne: "length ?s \<noteq> 0" by simp
  have unfolded: "np_median xs =
      (if ?n mod 2 = 1 then Some (?s ! (?n div 2))
       else Some ((?s ! (?n div 2 - 1) + ?s ! (?n div 2)) / 2))"
    unfolding np_median_def Let_def using sne by (simp only: if_False length_sort)
  show ?thesis
  proof (cases "?n mod 2 = 1")
    case True
    then have m: "m = ?s ! (?n div 2)" using assms unfolded by simp
    have i: "?n div 2 < length ?s" using ne by simp
    from sorted_below_count[OF srt i] sorted_above_count[OF srt i] m
    have "length (filter (\<lambda>x. x < m) ?s) \<le> ?n div 2"
      and "length (filter (\<lambda>x. m < x) ?s) \<le> ?n - Suc (?n div 2)" by simp_all
    then have "length (filter (\<lambda>x. x < m) xs) \<le> ?n div 2"
      and "length (filter (\<lambda>x. m < x) xs) \<le> ?n - Suc (?n div 2)"
      by (simp_all only: filter_sort_length)
    with True show ?thesis by presburger
  next
    case False
    let ?a = "?s ! (?n div 2 - 1)" and ?b = "?s ! (?n div 2)"
    from False have ev: "?n mod 2 = 0" by presburger
    have m: "m = (?a + ?b) / 2" using assms unfolded False by simp
    have ib: "?n div 2 < length ?s" using ne by simp
    have ia: "?n div 2 - 1 < length ?s" using ne len by linarith
    have "?a \<le> ?b" using srt ib by (simp add: sorted_nth_mono)
    with m have am: "?a \<le> m" and mb: "m \<le> ?b" by simp_all
    have "length (filter (\<lambda>x. x < m) ?s) \<le> length (filter (\<lambda>x. x < ?b) ?s)"
      using mb by (intro filter_length_mono) simp
    also have "\<dots> \<le> ?n div 2" by (rule sorted_below_count[OF srt ib])
    finally have lo: "length (filter (\<lambda>x. x < m) xs) \<le> ?n div 2"
      by (simp only: filter_sort_length)
    have "length (filter (\<lambda>x. m < x) ?s) \<le> length (filter (\<lambda>x. ?a < x) ?s)"
      using am by (intro filter_length_mono) simp
    also have "\<dots> \<le> length ?s - Suc (?n div 2 - 1)" by (rule sorted_above_count[OF srt ia])
    finally have hi: "length (filter (\<lambda>x. m < x) xs) \<le> ?n - Suc (?n div 2 - 1)"
      by (simp only: filter_sort_length len)
    from lo hi ev ne show ?thesis by presburger
  qed
qed

lemma median_of_word_Some:
  assumes "\<forall>r \<in> set results. \<exists>d. r = Some d \<and> word \<in> fst ` set d" and "results \<noteq> []"
  shows "\<exists>m. np_median (values_of word results) = Some m \<and> median_of_word results word = Inr m"
proof -
  from collect_getitem_word[OF assms(1)]
  have c: "collect (map (\<lambda>result. getitem_word result word) results) = Inr (values_of word results)"
    and l: "length (values_of word results) = length results" by auto
  from l assms(2) have "values_of word results \<noteq> []" by auto
  then obtain m where "np_median (values_of word results) = Some m"
    using np_median_eq_None by (cases "np_median (values_of word results)") auto
  with c show ?thesis by (simp add: median_of_word_def)
qed

text \<open>
  \<^verbatim>\<open>np.median\<close> gives \<^verbatim>\<open>nan\<close> for the empty list only, and \<^verbatim>\<open>median_topk\<close> reads
  \<^verbatim>\<open>results[0]\<close> before it takes a median: it never gets there.
\<close>

lemma median_of_word_not_nan: "median_of_word results word \<noteq> Inl NanResult \<or> results = []"
proof (cases "collect (map (\<lambda>result. getitem_word result word) results)")
  case (Inl e)
  have "e \<noteq> NanResult" using Inl
  proof (induction results)
    case Nil then show ?case by simp
  next
    case (Cons r rs)
    then show ?case
      by (auto simp: getitem_word_def split: option.splits sum.splits)
  qed
  with Inl show ?thesis by (simp add: median_of_word_def)
next
  case (Inr vals)
  have "length vals = length results" using Inr
  proof (induction results arbitrary: vals)
    case Nil then show ?case by simp
  next
    case (Cons r rs)
    then show ?case by (auto split: sum.splits)
  qed
  then show ?thesis using Inr np_median_eq_None[of vals]
    by (cases "np_median vals") (auto simp: median_of_word_def)
qed

text \<open>The dict comprehension over the keys of the first result.\<close>

lemma median_dict_fold:
  assumes "\<forall>word \<in> set keys. \<exists>m. median_of_word results word = Inr m"
  shows "median_dict results keys acc =
     Inr (foldl (\<lambda>a word. AList.update word (projr (median_of_word results word)) a) acc keys)"
  using assms
proof (induction keys arbitrary: acc)
  case Nil
  show ?case by simp
next
  case (Cons word keys)
  then obtain m where "median_of_word results word = Inr m" by auto
  with Cons show ?case by simp
qed

lemma fold_update_fresh:
  assumes "distinct keys" and "set keys \<inter> fst ` set acc = {}"
  shows "foldl (\<lambda>a k. AList.update k (g k) a) acc keys = acc @ map (\<lambda>k. (k, g k)) keys"
  using assms
proof (induction keys arbitrary: acc)
  case Nil
  show ?case by simp
next
  case (Cons k keys)
  have fresh: "k \<notin> fst ` set acc" using Cons.prems by auto
  have upd: "AList.update k (g k) acc = acc @ [(k, g k)]"
    using fresh by (induction acc) auto
  have "set keys \<inter> fst ` set (acc @ [(k, g k)]) = {}"
    using Cons.prems by auto
  with Cons.IH[of "acc @ [(k, g k)]"] Cons.prems upd show ?case by simp
qed

lemma map_of_keys:
  "k \<in> set ks \<Longrightarrow> map_of (map (\<lambda>k. (k, g k)) ks) k = Some (g k)"
  by (induction ks) auto

text \<open>The repeated query.\<close>

lemma repeat_query_length:
  "repeat_query n q w = (Inr results, w') \<Longrightarrow> length results = n"
  by (induction n arbitrary: w results) (auto split: prod.splits sum.splits)


text \<open>A map that \<^verbatim>\<open>topk\<close> returns has every key once.\<close>

lemma first_token_dict_distinct:
  assumes "first_token_dict enc items acc = Inr out" and "distinct (map fst acc)"
  shows "distinct (map fst out)"
  using assms
proof (induction items arbitrary: acc)
  case Nil
  then show ?case by simp
next
  case (Cons entry items)
  obtain x y where e: "entry = (x, y)" by (cases entry)
  show ?case
  proof (cases "encode enc x")
    case Nil
    with Cons.prems e show ?thesis by (simp add: getitem0_def)
  next
    case (Cons t ts)
    with Cons.prems e Cons.IH[of "AList.update t y acc"] show ?thesis
      by (simp add: getitem0_def AList.distinct_update)
  qed
qed

lemma topk_attempt_distinct:
  assumes "topk_attempt self prefix lb w = (Inr d, w')"
  shows "distinct (map fst d)"
  using assms
  by (auto simp: topk_attempt_def instruct_logprobs_def chat_logprobs_def
        instruct_normalize_def chat_normalize_def
      split: if_splits prod.splits sum.splits option.splits
      dest!: first_token_dict_distinct)

lemma topk_loop_distinct:
  assumes "topk_loop self prefix lb attempts w = (Inr (Some d), w')"
  shows "distinct (map fst d)"
  using assms
proof (induction attempts arbitrary: w)
  case Nil
  then show ?case by simp
next
  case (Cons i attempts)
  then show ?case
    by (auto split: prod.splits sum.splits if_splits dest: topk_attempt_distinct)
qed

lemma topk_distinct:
  assumes "topk self prefix logit_bias w = (Inr (Some d), w')"
  shows "distinct (map fst d)"
  using assms unfolding topk_def by (rule topk_loop_distinct)


text \<open>
  The aggregation of the base class, for any \<^verbatim>\<open>topk\<close>: when the \<open>k\<close> results are maps that
  all have the keys of the first one, the result has the keys of the first map, in its
  order, each with the median of the \<open>k\<close> values for that key.
\<close>

lemma Model_median_topk_medians:
  assumes run: "repeat_query (nat k) topk_call w = (Inr results, w')"
    and first: "results = Some first # others"
    and dist: "distinct (map fst first)"
    and keys: "\<forall>r \<in> set results. \<exists>d. r = Some d \<and> fst ` set first \<subseteq> fst ` set d"
  shows "\<exists>out. Model_median_topk topk_call k w = (Inr out, w')
       \<and> length results = nat k
       \<and> map fst out = map fst first
       \<and> (\<forall>word \<in> fst ` set first.
             length (values_of word results) = nat k
             \<and> np_median (values_of word results) \<noteq> None
             \<and> map_of out word = np_median (values_of word results))"
proof -
  let ?g = "\<lambda>word. projr (median_of_word results word)"
  let ?out = "map (\<lambda>word. (word, ?g word)) (map fst first)"
  have len: "length results = nat k"
    by (rule repeat_query_length[OF run])
  have ne: "results \<noteq> []" using first by simp
  have each: "\<exists>m. np_median (values_of word results) = Some m
                \<and> median_of_word results word = Inr m
                \<and> length (values_of word results) = length results"
    if "word \<in> fst ` set first" for word
  proof -
    from that keys have k: "\<forall>r \<in> set results. \<exists>d. r = Some d \<and> word \<in> fst ` set d" by blast
    from median_of_word_Some[OF k ne] collect_getitem_word[OF k] show ?thesis by blast
  qed
  then have "\<forall>word \<in> set (map fst first). \<exists>m. median_of_word results word = Inr m"
    by auto
  from median_dict_fold[OF this, of "[]"]
  have "median_dict results (map fst first) [] =
          Inr (foldl (\<lambda>a word. AList.update word (?g word) a) [] (map fst first))" .
  also have "foldl (\<lambda>a word. AList.update word (?g word) a) [] (map fst first) = ?out"
    using fold_update_fresh[OF dist, of "[]" ?g] by simp
  finally have md: "median_of_results results = Inr ?out"
    by (simp add: median_of_results_def getitem0_def first)
  have res: "Model_median_topk topk_call k w = (Inr ?out, w')"
    by (simp add: Model_median_topk_def run md)
  have fst_out: "map fst ?out = map fst first"
    by (simp add: comp_def)
  have vals: "length (values_of word results) = nat k
             \<and> np_median (values_of word results) \<noteq> None
             \<and> map_of ?out word = np_median (values_of word results)"
    if w: "word \<in> fst ` set first" for word
  proof -
    from each[OF w] obtain m where m: "np_median (values_of word results) = Some m"
      and mw: "median_of_word results word = Inr m"
      and l: "length (values_of word results) = length results" by blast
    from w have "word \<in> set (map fst first)" by simp
    then have "map_of ?out word = Some (?g word)"
      by (rule map_of_keys)
    with m mw l len show ?thesis by simp
  qed
  from res len fst_out vals show ?thesis by blast
qed







section \<open>Aggregating a single query\<close>

lemma same_keys_same_values:
  assumes "map fst xs = map fst ys" and "distinct (map fst xs)"
    and "\<forall>k \<in> set (map fst xs). map_of xs k = map_of ys k"
  shows "xs = ys"
  using assms
proof (induction xs arbitrary: ys)
  case Nil
  then show ?case by simp
next
  case (Cons x xs)
  from Cons.prems(1) obtain y ys' where ys: "ys = y # ys'" and f: "fst x = fst y"
    and rest: "map fst xs = map fst ys'" by (cases ys) auto
  from Cons.prems(3) ys f have "snd x = snd y" by simp
  with f have xy: "x = y" by (simp add: prod_eq_iff)
  have "\<forall>k \<in> set (map fst xs). map_of xs k = map_of ys' k"
  proof
    fix k assume k: "k \<in> set (map fst xs)"
    with Cons.prems(2) have "k \<noteq> fst x" by force
    with Cons.prems(3) k ys xy show "map_of xs k = map_of ys' k" by auto
  qed
  with Cons.IH[OF rest] Cons.prems(2) have "xs = ys'" by simp
  with xy ys show ?case by simp
qed

text \<open>
  When \<^verbatim>\<open>topk\<close> returns a map, or raises, \<^verbatim>\<open>median_topk(1, \<dots>)\<close> does the same, with the
  same trace.
\<close>

lemma median_topk_1:
  assumes "topk self prefix logit_bias w = (Inr (Some d), w')"
  shows "median_topk self 1 prefix logit_bias w = (Inr d, w')"
proof -
  have run: "repeat_query (nat 1) (topk self prefix logit_bias) w = (Inr [Some d], w')"
    using assms by simp
  have dist: "distinct (map fst d)"
    by (rule topk_distinct[OF assms])
  have "\<forall>r \<in> set [Some d]. \<exists>d'. r = Some d' \<and> fst ` set d \<subseteq> fst ` set d'"
    by simp
  from Model_median_topk_medians[OF run _ dist this]
  obtain out where out: "median_topk self 1 prefix logit_bias w = (Inr out, w')"
    and ks: "map fst out = map fst d"
    and m: "\<forall>word \<in> fst ` set d. map_of out word = np_median (values_of word [Some d])"
    by (auto simp: median_topk_def)
  have "map_of out word = map_of d word" if "word \<in> fst ` set d" for word
  proof -
    from that obtain v where v: "map_of d word = Some v"
      by (metis domD dom_map_of_conv_image_fst)
    then have "values_of word [Some d] = [v]" by (simp add: values_of_def)
    moreover from m that have "map_of out word = np_median (values_of word [Some d])"
      by blast
    ultimately show ?thesis using v by (simp add: np_median_single)
  qed
  then have "\<forall>word \<in> set (map fst out). map_of out word = map_of d word"
    using ks by simp
  from same_keys_same_values[OF ks _ this] dist ks have "out = d"
    by simp
  with out show ?thesis by simp
qed

lemma median_topk_1_error:
  assumes "topk self prefix logit_bias w = (Inl e, w')"
  shows "median_topk self 1 prefix logit_bias w = (Inl e, w')"
  using assms by (simp add: median_topk_def Model_median_topk_def)

text \<open>
  Claim C5 says that \<^verbatim>\<open>median_topk(1, prefix, logit_bias)\<close> equals
  \<^verbatim>\<open>topk(prefix, logit_bias)\<close>. That holds whenever \<^verbatim>\<open>topk\<close> returns a map or raises
  (\<open>median_topk_1\<close>, \<open>median_topk_1_error\<close>). When the retries of \<^verbatim>\<open>topk\<close> run out it returns
  \<^verbatim>\<open>None\<close>, and \<^verbatim>\<open>median_topk\<close> then raises AttributeError at \<^verbatim>\<open>results[0].keys()\<close>: with
  a backend that never gives a choice the two calls send the same requests and differ in
  their outcome.
\<close>

theorem median_topk_1_differs_on_None:
  "topk silent_instruct ''Hello'' Omitted [] =
     (Inr None,
      [CompletionsCreate hello_request, Sleep 10,
       CompletionsCreate hello_request, Sleep 20,
       CompletionsCreate hello_request, Sleep 30,
       CompletionsCreate hello_request, Sleep 40,
       CompletionsCreate hello_request, Sleep 50])
   \<and> median_topk silent_instruct 1 ''Hello'' Omitted [] =
     (Inl AttributeError,
      [CompletionsCreate hello_request, Sleep 10,
       CompletionsCreate hello_request, Sleep 20,
       CompletionsCreate hello_request, Sleep 30,
       CompletionsCreate hello_request, Sleep 40,
       CompletionsCreate hello_request, Sleep 50])"
  by (simp add: median_topk_def Model_median_topk_def silent_topk median_of_results_def
      getitem0_def)

section \<open>Linear backoff\<close>

text \<open>
  Claim C6. When an attempt of \<^verbatim>\<open>topk\<close> fails with the empty-response failure (IndexError
  in the source), the loop sleeps \<open>10 * (i + 1)\<close> seconds, \<open>i\<close> the index of the attempt,
  before the next attempt. Let the first \<open>n\<close> attempts fail so, each made in the world that
  the attempts and sleeps before it have left, and let attempt \<open>n\<close> succeed with the map
  \<open>d\<close>, with \<open>n\<close> below the retry budget. Then \<^verbatim>\<open>topk\<close> returns \<open>d\<close>; the trace grows by
  \<open>n\<close> times (request, sleep) and the final request, and the sleeps are
  \<open>10, 20, \<dots>, 10 * n\<close> in this order. For \<open>n = 2\<close>: two retries, delays 10 and 20, and
  the result of the third attempt.
\<close>

theorem topk_backoff_then_success:
  assumes budget: "n < nat (max_api_retries self)"
    and failures: "\<forall>j<n.
           fst (topk_attempt self prefix (arg_or_default (Some []) logit_bias)
                  (w @ retry_events self prefix (arg_or_default (Some []) logit_bias) [0 ..< j]))
             = Inl IndexError"
    and success:
          "fst (topk_attempt self prefix (arg_or_default (Some []) logit_bias)
                  (w @ retry_events self prefix (arg_or_default (Some []) logit_bias) [0 ..< n]))
             = Inr d"
  shows "\<exists>new. topk self prefix logit_bias w = (Inr (Some d), w @ new)
           \<and> new = retry_events self prefix (arg_or_default (Some []) logit_bias) [0 ..< n]
                   @ attempt_events self prefix (arg_or_default (Some []) logit_bias)
           \<and> sleeps_of new = map (\<lambda>i. 10 * (i + 1)) [0 ..< n]"
proof -
  let ?lb = "arg_or_default (Some []) logit_bias"
  let ?w1 = "w @ retry_events self prefix ?lb [0 ..< n]"
  have len: "\<forall>j<length [0 ..< n].
          fst (topk_attempt self prefix ?lb (w @ retry_events self prefix ?lb (take j [0 ..< n])))
            = Inl IndexError"
    using failures by simp
  have "topk self prefix logit_bias w =
        topk_loop self prefix ?lb ([0 ..< n] @ n # [Suc n ..< nat (max_api_retries self)]) w"
    by (simp add: topk_def retries_split[OF budget])
  also have "\<dots> = topk_loop self prefix ?lb (n # [Suc n ..< nat (max_api_retries self)]) ?w1"
    by (rule topk_loop_retries[OF len])
  also have "\<dots> = (Inr (Some d), ?w1 @ attempt_events self prefix ?lb)"
    by (rule topk_loop_step_success[OF success])
  finally have "topk self prefix logit_bias w =
        (Inr (Some d), ?w1 @ attempt_events self prefix ?lb)" .
  moreover have "sleeps_of (retry_events self prefix ?lb [0 ..< n]
                   @ attempt_events self prefix ?lb)
        = map (\<lambda>i. 10 * (i + 1)) [0 ..< n]"
    by (simp add: sleeps_of_append sleeps_of_retry_events sleeps_of_attempt_events)
  ultimately show ?thesis by simp
qed

text \<open>
  The backend of \<open>flaky_instruct\<close> gives no choices twice and then one entry: two
  retries with sleeps of 10 and 20 seconds, three requests, and the third answer.
\<close>

theorem topk_backoff_then_success_witness:
  "topk flaky_instruct ''Hello'' Omitted [] =
     (Inr (Some [(7, - 1 / 2)]),
      [CompletionsCreate hello_request, Sleep 10,
       CompletionsCreate hello_request, Sleep 20,
       CompletionsCreate hello_request])"
proof -
  let ?lb = "arg_or_default (Some []) Omitted"
  have budget: "2 < nat (max_api_retries flaky_instruct)"
    by (simp add: flaky_instruct_def)
  have calls: "calls_made (retry_events flaky_instruct ''Hello'' (Some []) [0 ..< j]) = j"
    for j
    by (simp add: calls_made_retry_events flaky_events calls_made_request)
  have failures: "\<forall>j<2.
      fst (topk_attempt flaky_instruct ''Hello'' ?lb
             ([] @ retry_events flaky_instruct ''Hello'' ?lb [0 ..< j])) = Inl IndexError"
    by (simp add: arg_or_default_def flaky_attempt calls)
  have success:
     "fst (topk_attempt flaky_instruct ''Hello'' ?lb
             ([] @ retry_events flaky_instruct ''Hello'' ?lb [0 ..< 2])) = Inr [(7, - 1 / 2)]"
    by (simp add: arg_or_default_def flaky_attempt calls)
  from topk_backoff_then_success[OF budget failures success]
  show ?thesis
    by (simp add: arg_or_default_def flaky_events retry_events_def upt_0_2)
qed

section \<open>Failures that are not retried\<close>





section \<open>Dispatch on the model identifier\<close>

lemma unsupported_attempt:
  assumes "model self \<notin> set [''gpt-3.5-turbo-instruct'', ''babbage-002'', ''davinci-002'']"
    and "\<not> startswith (model self) ''gpt-4''" and "\<not> startswith (model self) ''gpt-3''"
  shows "topk_attempt self prefix lb w =
     (Inl (NotImplementedError (''Tried to get topk logprobs for: '' @ model self)), w)"
  using assms by (simp add: topk_attempt_def)

lemma OpenAIModel_init_retries:
  assumes "OpenAIModel_init encoding_for_model environ OpenAI mdl sys = Inr self"
  shows "max_api_retries self = 5" and "model self = mdl"
  using assms by (auto simp: OpenAIModel_init_def split: sum.splits option.splits)

text \<open>
  Claim C8. For a model identifier that is neither one of the three legacy-completion
  identifiers nor starts with \<^verbatim>\<open>gpt-4\<close> or \<^verbatim>\<open>gpt-3\<close>, \<^verbatim>\<open>topk\<close> raises
  NotImplementedError (the spec's UnsupportedModel) in its first attempt: the trace is
  unchanged, so no request was sent and nothing slept, and the error is not retried. The
  loop has to run at least once; the constructor sets the budget to 5
  (\<open>OpenAIModel_init_retries\<close>).
\<close>

theorem topk_unsupported_model:
  assumes "model self \<notin> set [''gpt-3.5-turbo-instruct'', ''babbage-002'', ''davinci-002'']"
    and "\<not> startswith (model self) ''gpt-4''"
    and "\<not> startswith (model self) ''gpt-3''"
    and "0 < max_api_retries self"
  shows "topk self prefix logit_bias w =
     (Inl (NotImplementedError (''Tried to get topk logprobs for: '' @ model self)), w)"
proof -
  from assms(4) have "[0 ..< nat (max_api_retries self)]
      = 0 # [1 ..< nat (max_api_retries self)]"
    by (simp add: upt_conv_Cons)
  then show ?thesis
    by (simp add: topk_def unsupported_attempt[OF assms(1-3)])
qed

theorem topk_unsupported_model_witness:
  "topk davinci3 ''Hello'' Omitted [] =
     (Inl (NotImplementedError ''Tried to get topk logprobs for: text-davinci-003''), [])"
  using topk_unsupported_model[of davinci3 "''Hello''" Omitted "[]"]
  by (simp add: davinci3_def startswith_def)

section \<open>The normalizer\<close>








section \<open>The order of the two family tests\<close>




end
